theory Spec2Isabelle
  imports Main "HOL-Library.AList"
begin

section \<open>Python values, dictionaries and the store\<close>

text \<open>
  The module \<^verbatim>\<open>odincontrib_aws/dynamodb/query.py\<close> builds request parameters in
  Python dictionaries and passes them to the DynamoDB client. A dictionary keeps its keys
  in insertion order and assigning to an existing key replaces the value in place, which
  is what \<open>AList.update\<close> does on an association list.
\<close>

datatype val = Str string | Num int | Lst "val list" | Dct "(string \<times> val) list"

type_synonym pydict = "(string \<times> val) list"

text \<open>
  Dictionaries are mutable objects that the code reaches through references, so they live
  in a store: an address names a cell, \<open>{}\<close> and \<open>d.copy()\<close> allocate a new cell,
  \<open>d[k] = v\<close> and \<open>d.update(kw)\<close> write to the cell a reference points to.
\<close>

type_synonym addr = nat

record heap =
  cells :: "addr \<Rightarrow> pydict"
  next_free :: addr

definition dict_new :: "heap \<Rightarrow> addr \<times> heap" where
  "dict_new h =
     (next_free h, h\<lparr>cells := (cells h)(next_free h := []), next_free := Suc (next_free h)\<rparr>)"

definition dict_copy :: "addr \<Rightarrow> heap \<Rightarrow> addr \<times> heap" where
  "dict_copy a h =
     (next_free h,
      h\<lparr>cells := (cells h)(next_free h := cells h a), next_free := Suc (next_free h)\<rparr>)"

definition dict_setitem :: "addr \<Rightarrow> string \<Rightarrow> val \<Rightarrow> heap \<Rightarrow> heap" where
  "dict_setitem a k v h = h\<lparr>cells := (cells h)(a := AList.update k v (cells h a))\<rparr>"

definition dict_update :: "addr \<Rightarrow> pydict \<Rightarrow> heap \<Rightarrow> heap" where
  "dict_update a kw h =
     h\<lparr>cells := (cells h)(a := fold (\<lambda>(k, v). AList.update k v) kw (cells h a))\<rparr>"

section \<open>External collaborators\<close>

text \<open>
  Modelled from the spec: the session, the table metadata and the index descriptor are
  defined in modules that are not part of the sources (\<^verbatim>\<open>odin\<close> and
  \<^verbatim>\<open>odincontrib_aws.dynamodb.indexes\<close>). The spec gives their interface: a table
  exposes its ordered key fields (hash field first, then the optional range field), an
  index descriptor exposes its name and a back-reference to its owning table, and an
  index object is an ordinary (truthy) object.
\<close>

datatype session = Session string

datatype field = Field (field_name: string)

datatype table = Table (table_id: string) (key_fields: "field list")

datatype index = Index (index_name: string) (index_table: table)

text \<open>
  Python is dynamically typed: a constructor argument can be any object.
  \<open>NOT_PROVIDED\<close> is the sentinel of \<^verbatim>\<open>odin.fields\<close>.
\<close>

datatype pyobj = PySession session | PyTable table | PyIndex index | PyValue val | NOT_PROVIDED

datatype error = TypeError | AttributeError | KeyError | AssertionError | BackendError string

text \<open>
  The functions the module calls but does not define are parameters of the model:
  \<open>table._meta.table_name(session)\<close>, \<open>field.prepare_dynamo(value)\<close> and
  \<open>create_resource_from_dict(item, table, copy_dict=False, full_clean=False)\<close>.
  They are taken to return a value; the one collaborator whose failure the model follows
  is the client.
\<close>

record 'r ext =
  table_name :: "table \<Rightarrow> pyobj \<Rightarrow> string"
  prepare_dynamo :: "field \<Rightarrow> pyobj \<Rightarrow> val"
  create_resource_from_dict :: "val \<Rightarrow> pyobj \<Rightarrow> 'r"

text \<open>
  One page as the client returns it: a mapping in which a key may be absent (\<open>None\<close>).
  The client either returns a page or raises.
\<close>

record response =
  Items :: "val list option"
  Count :: "int option"
  ScannedCount :: "int option"
  ConsumedCapacity :: "val option"
  LastEvaluatedKey :: "val option"

type_synonym reply = "error + response"

section \<open>QueryBase, Scan and Query\<close>

datatype cls = Scan | Query

datatype command = client_scan | client_query

record query =
  cls :: cls
  session :: pyobj
  table :: pyobj
  index :: "index option"
  expression_attributes :: addr
  params :: addr
  command :: "command option"
  hash_value :: pyobj
  range_value :: pyobj

text \<open>
  \<open>QueryBase.__init__(self, session, table_of_index)\<close>: exactly two positional
  arguments, anything else is a \<open>TypeError\<close>. The attributes \<open>hash_value\<close> and
  \<open>_range_value\<close> exist on a \<open>Query\<close> only; on a \<open>Scan\<close> the fields hold the
  sentinel and are never read.
\<close>

fun QueryBase_init :: "cls \<Rightarrow> pyobj list \<Rightarrow> heap \<Rightarrow> error + query \<times> heap" where
  "QueryBase_init c [sess, table_of_index] h =
     (let (ea, h1) = dict_new h; (pa, h2) = dict_new h1 in
      Inr (\<lparr>cls = c, session = sess,
            table = (case table_of_index of PyIndex ix \<Rightarrow> PyTable (index_table ix)
                     | _ \<Rightarrow> table_of_index),
            index = (case table_of_index of PyIndex ix \<Rightarrow> Some ix | _ \<Rightarrow> None),
            expression_attributes = ea, params = pa, command = None,
            hash_value = NOT_PROVIDED, range_value = NOT_PROVIDED\<rparr>, h2))"
| "QueryBase_init c _ h = Inl TypeError"

text \<open>
  \<open>Scan.__init__(self, *args)\<close> and \<open>Query.__init__(self, hash_value, *args)\<close>.
  \<open>self.session.client.scan\<close> is an \<open>AttributeError\<close> unless the session argument
  is a session object.
\<close>

definition Scan_init :: "pyobj list \<Rightarrow> heap \<Rightarrow> error + query \<times> heap" where
  "Scan_init args h =
     (case QueryBase_init Scan args h of
        Inl e \<Rightarrow> Inl e
      | Inr (self, h') \<Rightarrow>
          (case session self of
             PySession s \<Rightarrow> Inr (self\<lparr>command := Some client_scan\<rparr>, h')
           | _ \<Rightarrow> Inl AttributeError))"

definition Query_init :: "pyobj \<Rightarrow> pyobj list \<Rightarrow> heap \<Rightarrow> error + query \<times> heap" where
  "Query_init hv args h =
     (case QueryBase_init Query args h of
        Inl e \<Rightarrow> Inl e
      | Inr (self, h') \<Rightarrow>
          (let self1 = self\<lparr>hash_value := hv, range_value := NOT_PROVIDED\<rparr> in
           case session self1 of
             PySession s \<Rightarrow> Inr (self1\<lparr>command := Some client_query\<rparr>, h')
           | _ \<Rightarrow> Inl AttributeError))"

text \<open>Calling a class with positional arguments: \<open>cls(*args)\<close>.\<close>

fun construct :: "cls \<Rightarrow> pyobj list \<Rightarrow> heap \<Rightarrow> error + query \<times> heap" where
  "construct Scan args h = Scan_init args h"
| "construct Query (hv # args) h = Query_init hv args h"
| "construct Query [] h = Inl TypeError"

text \<open>
  \<open>QueryBase._get_params\<close>: the local \<open>params\<close> is the dictionary \<open>self._params\<close>
  itself, so the assignments write to the operation's own dictionary. The right-hand
  side is evaluated first: a table argument that is no table raises before any write.
\<close>

definition QueryBase_get_params :: "'r ext \<Rightarrow> query \<Rightarrow> heap \<Rightarrow> error + addr \<times> heap" where
  "QueryBase_get_params ext self h =
     (case table self of
        PyTable t \<Rightarrow>
          (let pa = params self;
               h1 = dict_setitem pa ''TableName'' (Str (table_name ext t (session self))) h;
               h2 = (case index self of
                       Some ix \<Rightarrow> dict_setitem pa ''IndexName'' (Str (index_name ix)) h1
                     | None \<Rightarrow> h1)
           in Inr (pa, h2))
      | _ \<Rightarrow> Inl AttributeError)"

text \<open>
  The dictionary comprehension of \<open>Query._get_params\<close>: \<open>zip\<close> stops at the shorter
  sequence, pairs whose value is the sentinel are skipped, and a later pair with the
  same field name replaces an earlier one.
\<close>

definition key_conditions :: "'r ext \<Rightarrow> field list \<Rightarrow> pyobj list \<Rightarrow> pydict" where
  "key_conditions ext key_flds key_values =
     fold (\<lambda>(f, v). AList.update (field_name f)
                      (Dct [(''AttributeValueList'', Lst [prepare_dynamo ext f v])]))
          (filter (\<lambda>(f, v). v \<noteq> NOT_PROVIDED) (zip key_flds key_values)) []"

definition Query_get_params :: "'r ext \<Rightarrow> query \<Rightarrow> heap \<Rightarrow> error + addr \<times> heap" where
  "Query_get_params ext self h =
     (case QueryBase_get_params ext self h of
        Inl e \<Rightarrow> Inl e
      | Inr (pa, h1) \<Rightarrow>
          (case table self of
             PyTable t \<Rightarrow>
               Inr (pa, dict_setitem pa ''KeyConditions''
                          (Dct (key_conditions ext (key_fields t)
                                  [hash_value self, range_value self])) h1)
           | _ \<Rightarrow> Inl AttributeError))"

text \<open>\<open>query._get_params()\<close> resolves to the method of the object's class.\<close>

definition get_params :: "'r ext \<Rightarrow> query \<Rightarrow> heap \<Rightarrow> error + addr \<times> heap" where
  "get_params ext self h =
     (case cls self of
        Scan \<Rightarrow> QueryBase_get_params ext self h
      | Query \<Rightarrow> Query_get_params ext self h)"

text \<open>\<open>QueryBase.copy\<close>: \<open>self.__class__(self.session, self.table)\<close>, then a copy of
  the parameter dictionary.\<close>

definition QueryBase_copy :: "query \<Rightarrow> heap \<Rightarrow> error + query \<times> heap" where
  "QueryBase_copy self h =
     (case construct (cls self) [session self, table self] h of
        Inl e \<Rightarrow> Inl e
      | Inr (q, h1) \<Rightarrow>
          (let (pa, h2) = dict_copy (params self) h1 in Inr (q\<lparr>params := pa\<rparr>, h2)))"

text \<open>The builder methods. \<open>params\<close> returns nothing, the others return \<open>self\<close>.\<close>

definition QueryBase_params :: "query \<Rightarrow> pydict \<Rightarrow> heap \<Rightarrow> heap" where
  "QueryBase_params self kw h = dict_update (params self) kw h"

definition QueryBase_index :: "query \<Rightarrow> val \<Rightarrow> heap \<Rightarrow> query \<times> heap" where
  "QueryBase_index self name h = (self, dict_setitem (params self) ''IndexName'' name h)"

definition QueryBase_limit :: "query \<Rightarrow> val \<Rightarrow> heap \<Rightarrow> query \<times> heap" where
  "QueryBase_limit self v h = (self, dict_setitem (params self) ''Limit'' v h)"

definition select_values :: "val list" where
  "select_values =
     [Str ''ALL_ATTRIBUTES'', Str ''ALL_PROJECTED_ATTRIBUTES'', Str ''COUNT'',
      Str ''SPECIFIC_ATTRIBUTES'']"

definition consumed_capacity_values :: "val list" where
  "consumed_capacity_values = [Str ''INDEXES'', Str ''TOTAL'', Str ''NONE'']"

text \<open>
  \<open>select\<close> and \<open>consumed_capacity\<close> check their argument with an \<open>assert\<close>
  statement, which raises \<open>AssertionError\<close> (the interpreter is taken to run with
  assertions enabled, its default). The argument is optional: \<open>None\<close> stands for a
  call that leaves it out.
\<close>

definition QueryBase_select :: "query \<Rightarrow> val option \<Rightarrow> heap \<Rightarrow> error + query \<times> heap" where
  "QueryBase_select self arg h =
     (let v = (case arg of None \<Rightarrow> Str ''ALL_ATTRIBUTES'' | Some x \<Rightarrow> x) in
      if v \<in> set select_values
      then Inr (self, dict_setitem (params self) ''Select'' v h)
      else Inl AssertionError)"

definition QueryBase_consumed_capacity ::
  "query \<Rightarrow> val option \<Rightarrow> heap \<Rightarrow> error + query \<times> heap" where
  "QueryBase_consumed_capacity self arg h =
     (let v = (case arg of None \<Rightarrow> Str ''TOTAL'' | Some x \<Rightarrow> x) in
      if v \<in> set consumed_capacity_values
      then Inr (self, dict_setitem (params self) ''ReturnConsumedCapacity'' v h)
      else Inl AssertionError)"

text \<open>\<open>Query.range\<close> is a method of \<open>Query\<close> only.\<close>

definition Query_range :: "query \<Rightarrow> pyobj \<Rightarrow> error + query" where
  "Query_range self v =
     (case cls self of
        Query \<Rightarrow> Inr (self\<lparr>range_value := v\<rparr>)
      | Scan \<Rightarrow> Inl AttributeError)"

text \<open>
  The expression \<open>op.index\<close>: \<open>__init__\<close> assigns the instance attribute \<open>index\<close>
  (an index object or \<open>None\<close>), and an instance attribute is found before a function
  of the class. Calling \<open>None\<close> is a \<open>TypeError\<close>; so is calling an index object,
  which declares no call operator.
\<close>

datatype attr = AttrNone | AttrIndex index | AttrMethod

definition getattr_index :: "query \<Rightarrow> attr" where
  "getattr_index self = (case index self of None \<Rightarrow> AttrNone | Some ix \<Rightarrow> AttrIndex ix)"

definition call_index :: "query \<Rightarrow> val \<Rightarrow> heap \<Rightarrow> error + query \<times> heap" where
  "call_index self name h =
     (case getattr_index self of
        AttrMethod \<Rightarrow> Inr (QueryBase_index self name h)
      | AttrNone \<Rightarrow> Inl TypeError
      | AttrIndex ix \<Rightarrow> Inl TypeError)"

section \<open>QueryResult and PagedQueryResult\<close>

text \<open>
  The accessors of \<open>QueryResult\<close>: subscripting a missing key is a \<open>KeyError\<close>,
  \<open>.get\<close> of a missing key is \<open>None\<close>.
\<close>

definition QueryResult_raw_results :: "response \<Rightarrow> error + val list" where
  "QueryResult_raw_results res = (case Items res of None \<Rightarrow> Inl KeyError | Some xs \<Rightarrow> Inr xs)"

definition QueryResult_count :: "response \<Rightarrow> error + int" where
  "QueryResult_count res = (case Count res of None \<Rightarrow> Inl KeyError | Some n \<Rightarrow> Inr n)"

definition QueryResult_scanned :: "response \<Rightarrow> error + int" where
  "QueryResult_scanned res = (case ScannedCount res of None \<Rightarrow> Inl KeyError | Some n \<Rightarrow> Inr n)"

definition QueryResult_last_evaluated_key :: "response \<Rightarrow> val option" where
  "QueryResult_last_evaluated_key res = LastEvaluatedKey res"

text \<open>\<open>QueryResult.__iter__\<close>: every raw item is decoded against the table of the
  operation, in the order of the page.\<close>

definition QueryResult_iter :: "'r ext \<Rightarrow> query \<Rightarrow> response \<Rightarrow> error + 'r list" where
  "QueryResult_iter ext q res =
     (case QueryResult_raw_results res of
        Inl e \<Rightarrow> Inl e
      | Inr items \<Rightarrow> Inr (map (\<lambda>item. create_resource_from_dict ext item (table q)) items))"

text \<open>
  The counters of a \<open>PagedQueryResult\<close>. Its attribute \<open>query\<close> is a reference to
  the operation; the functions below take the operation next to the cursor.
\<close>

record PagedQueryResult =
  pages :: int
  count :: int
  scanned :: int
  last_page :: bool

definition PagedQueryResult_init :: PagedQueryResult where
  "PagedQueryResult_init = \<lparr>pages = 0, count = 0, scanned = 0, last_page = False\<rparr>"

text \<open>
  What a consumer observes of a traversal, in order: a call of the client with the
  keyword arguments it was given, or a resource handed out.
\<close>

datatype 'r event = Fetch command pydict | Yield 'r

text \<open>
  How an execution ends: it returns, it raises, or it is left waiting for the client
  (the call was made and the replies at hand do not contain an answer to it).
\<close>

datatype 'a outcome = Returned 'a | Raised error | NoReply

record 'r run =
  events :: "'r event list"
  outcome :: "unit outcome"
  cursor :: PagedQueryResult
  store :: heap
  unread :: "reply list"

definition emit :: "'r event list \<Rightarrow> 'r run \<Rightarrow> 'r run" where
  "emit es r = r\<lparr>events := es @ events r\<rparr>"

text \<open>
  The "Update stats" block of the loop. The statistics are updated one after the other,
  so a page without \<open>Count\<close> or \<open>ScannedCount\<close> leaves the earlier updates in place.
\<close>

definition update_stats :: "PagedQueryResult \<Rightarrow> response \<Rightarrow> PagedQueryResult \<times> error option" where
  "update_stats c res =
     (let c1 = c\<lparr>pages := pages c + 1\<rparr> in
      case QueryResult_count res of
        Inl e \<Rightarrow> (c1, Some e)
      | Inr n \<Rightarrow>
          (let c2 = c1\<lparr>count := count c1 + n\<rparr> in
           case QueryResult_scanned res of
             Inl e \<Rightarrow> (c2, Some e)
           | Inr m \<Rightarrow>
               (c2\<lparr>scanned := scanned c2 + m,
                   last_page := (QueryResult_last_evaluated_key res = None)\<rparr>, None)))"

text \<open>
  The \<open>while True\<close> loop of \<open>PagedQueryResult.__iter__\<close>. The local \<open>params\<close> is a
  reference \<open>p\<close> into the store and \<open>rs\<close> are the replies of the client to the calls
  still to come. \<open>self.last_page\<close> has just been assigned from the test
  \<open>results.last_evaluated_key is None\<close>, so the branch on it is the case distinction
  on the key.
\<close>

fun page_loop ::
  "'r ext \<Rightarrow> query \<Rightarrow> PagedQueryResult \<Rightarrow> addr \<Rightarrow> heap \<Rightarrow> reply list \<Rightarrow> 'r run" where
  "page_loop ext q c p h [] =
     (case command q of
        None \<Rightarrow> \<lparr>events = [], outcome = Raised TypeError, cursor = c, store = h, unread = []\<rparr>
      | Some cmd \<Rightarrow>
          \<lparr>events = [Fetch cmd (cells h p)], outcome = NoReply, cursor = c, store = h,
           unread = []\<rparr>)"
| "page_loop ext q c p h (r # rs) =
     (case command q of
        None \<Rightarrow>
          \<lparr>events = [], outcome = Raised TypeError, cursor = c, store = h, unread = r # rs\<rparr>
      | Some cmd \<Rightarrow>
          (case r of
             Inl e \<Rightarrow>
               \<lparr>events = [Fetch cmd (cells h p)], outcome = Raised e, cursor = c, store = h,
                unread = rs\<rparr>
           | Inr res \<Rightarrow>
               (case update_stats c res of
                  (c', Some e) \<Rightarrow>
                    \<lparr>events = [Fetch cmd (cells h p)], outcome = Raised e, cursor = c',
                     store = h, unread = rs\<rparr>
                | (c', None) \<Rightarrow>
                    (case QueryResult_iter ext q res of
                       Inl e \<Rightarrow>
                         \<lparr>events = [Fetch cmd (cells h p)], outcome = Raised e, cursor = c',
                          store = h, unread = rs\<rparr>
                     | Inr ys \<Rightarrow>
                         (case QueryResult_last_evaluated_key res of
                            None \<Rightarrow>
                              \<lparr>events = Fetch cmd (cells h p) # map Yield ys,
                               outcome = Returned (), cursor = c', store = h, unread = rs\<rparr>
                          | Some k \<Rightarrow>
                              emit (Fetch cmd (cells h p) # map Yield ys)
                                (page_loop ext q c' p
                                   (dict_setitem p ''ExclusiveStartKey'' k h) rs))))))"

text \<open>
  \<open>PagedQueryResult.__iter__\<close>: a generator function, so every \<open>iter(cursor)\<close> runs
  the body from its first line. Its first statement,
  \<open>params = query._get_params().copy()\<close>, is \<open>snapshot\<close>. The result also says what
  became of the store.
\<close>

definition snapshot :: "'r ext \<Rightarrow> query \<Rightarrow> heap \<Rightarrow> error + addr \<times> heap" where
  "snapshot ext q h =
     (case get_params ext q h of Inl e \<Rightarrow> Inl e | Inr (a, h1) \<Rightarrow> Inr (dict_copy a h1))"

definition PagedQueryResult_iter ::
  "'r ext \<Rightarrow> query \<Rightarrow> PagedQueryResult \<Rightarrow> heap \<Rightarrow> reply list \<Rightarrow> 'r run" where
  "PagedQueryResult_iter ext q c h rs =
     (case snapshot ext q h of
        Inl e \<Rightarrow> \<lparr>events = [], outcome = Raised e, cursor = c, store = h, unread = rs\<rparr>
      | Inr (p, h2) \<Rightarrow> page_loop ext q c p h2 rs)"

text \<open>\<open>QueryBase.all\<close> and \<open>QueryBase.__iter__\<close>.\<close>

definition QueryBase_all :: "query \<Rightarrow> PagedQueryResult" where
  "QueryBase_all self = PagedQueryResult_init"

definition QueryBase_iter :: "'r ext \<Rightarrow> query \<Rightarrow> heap \<Rightarrow> reply list \<Rightarrow> 'r run" where
  "QueryBase_iter ext self h rs = PagedQueryResult_iter ext self (QueryBase_all self) h rs"

text \<open>
  \<open>QueryBase.single\<close>: the arguments are evaluated before the call, so
  \<open>_get_params\<close> has run when a missing command raises.
\<close>

record single_run =
  s_events :: "unit event list"
  s_outcome :: "response outcome"
  s_store :: heap
  s_unread :: "reply list"

definition QueryBase_single :: "'r ext \<Rightarrow> query \<Rightarrow> heap \<Rightarrow> reply list \<Rightarrow> single_run" where
  "QueryBase_single ext self h rs =
     (case get_params ext self h of
        Inl e \<Rightarrow> \<lparr>s_events = [], s_outcome = Raised e, s_store = h, s_unread = rs\<rparr>
      | Inr (a, h1) \<Rightarrow>
          (case command self of
             None \<Rightarrow> \<lparr>s_events = [], s_outcome = Raised TypeError, s_store = h1, s_unread = rs\<rparr>
           | Some cmd \<Rightarrow>
               (case rs of
                  [] \<Rightarrow>
                    \<lparr>s_events = [Fetch cmd (cells h1 a)], s_outcome = NoReply, s_store = h1,
                     s_unread = []\<rparr>
                | Inl e # rest \<Rightarrow>
                    \<lparr>s_events = [Fetch cmd (cells h1 a)], s_outcome = Raised e, s_store = h1,
                     s_unread = rest\<rparr>
                | Inr res # rest \<Rightarrow>
                    \<lparr>s_events = [Fetch cmd (cells h1 a)], s_outcome = Returned res,
                     s_store = h1, s_unread = rest\<rparr>)))"

text \<open>The calls and the resources of a trace.\<close>

fun fetches :: "'r event list \<Rightarrow> (command \<times> pydict) list" where
  "fetches [] = []"
| "fetches (Fetch cmd d # es) = (cmd, d) # fetches es"
| "fetches (Yield y # es) = fetches es"


section \<open>Pages and traces\<close>

text \<open>A page that has the three keys the loop subscripts, and what it holds.\<close>

definition complete :: "response \<Rightarrow> bool" where
  "complete res = (Items res \<noteq> None \<and> Count res \<noteq> None \<and> ScannedCount res \<noteq> None)"

definition items_of :: "response \<Rightarrow> val list" where
  "items_of res = (case Items res of None \<Rightarrow> [] | Some xs \<Rightarrow> xs)"

definition count_of :: "response \<Rightarrow> int" where
  "count_of res = (case Count res of None \<Rightarrow> 0 | Some n \<Rightarrow> n)"

definition scanned_of :: "response \<Rightarrow> int" where
  "scanned_of res = (case ScannedCount res of None \<Rightarrow> 0 | Some n \<Rightarrow> n)"

definition decoded :: "'r ext \<Rightarrow> query \<Rightarrow> response \<Rightarrow> 'r list" where
  "decoded ext q res = map (\<lambda>item. create_resource_from_dict ext item (table q)) (items_of res)"

definition add_page :: "PagedQueryResult \<Rightarrow> response \<Rightarrow> PagedQueryResult" where
  "add_page c res =
     c\<lparr>pages := pages c + 1, count := count c + count_of res,
       scanned := scanned c + scanned_of res, last_page := (LastEvaluatedKey res = None)\<rparr>"

section \<open>Concrete inputs\<close>

definition ext0 :: "val ext" where
  "ext0 =
     \<lparr>table_name = (\<lambda>t s. table_id t),
      prepare_dynamo = (\<lambda>f v. case v of PyValue x \<Rightarrow> Dct [(''S'', x)] | _ \<Rightarrow> Str []),
      create_resource_from_dict = (\<lambda>item t. item)\<rparr>"

definition heap0 :: heap where
  "heap0 = \<lparr>cells = (\<lambda>a. []), next_free = 0\<rparr>"

definition session0 :: pyobj where
  "session0 = PySession (Session ''eu-west-1'')"

definition users :: table where
  "users = Table ''users'' [Field ''id'']"

definition events_table :: table where
  "events_table = Table ''events'' [Field ''device'', Field ''at'']"

definition by_date :: index where
  "by_date = Index ''by_date'' events_table"

text \<open>\<open>Scan(session, users)\<close> on the empty store, and the store it leaves.\<close>

definition scan0 :: query where
  "scan0 =
     \<lparr>cls = Scan, session = session0, table = PyTable users, index = None,
      expression_attributes = 0, params = 1, command = Some client_scan,
      hash_value = NOT_PROVIDED, range_value = NOT_PROVIDED\<rparr>"

definition heap2 :: heap where
  "heap2 = \<lparr>cells = (\<lambda>a. []), next_free = 2\<rparr>"

definition page0 :: "val list \<Rightarrow> val option \<Rightarrow> response" where
  "page0 xs k =
     \<lparr>Items = Some xs, Count = Some (int (length xs)), ScannedCount = Some (int (length xs) + 1),
      ConsumedCapacity = None, LastEvaluatedKey = k\<rparr>"

text \<open>\<open>Query('d1', session, events_table)\<close> and \<open>Scan(session, by_date)\<close> on the
  empty store; both leave the store \<open>heap2\<close>.\<close>

definition query0 :: query where
  "query0 =
     \<lparr>cls = Query, session = session0, table = PyTable events_table, index = None,
      expression_attributes = 0, params = 1, command = Some client_query,
      hash_value = PyValue (Str ''d1''), range_value = NOT_PROVIDED\<rparr>"

definition scan_by_date :: query where
  "scan_by_date =
     \<lparr>cls = Scan, session = session0, table = PyTable events_table, index = Some by_date,
      expression_attributes = 0, params = 1, command = Some client_scan,
      hash_value = NOT_PROVIDED, range_value = NOT_PROVIDED\<rparr>"

text \<open>\<open>Query('u1', session, users).range('2016')\<close>: a range value on a table that
  declares a hash field only.\<close>

definition query_users :: query where
  "query_users =
     \<lparr>cls = Query, session = session0, table = PyTable users, index = None,
      expression_attributes = 0, params = 1, command = Some client_query,
      hash_value = PyValue (Str ''u1''), range_value = PyValue (Str ''2016'')\<rparr>"

text \<open>\<open>Query('d1', session, by_date)\<close> on the empty store: a query built against an
  index.\<close>

definition query_by_date :: query where
  "query_by_date =
     \<lparr>cls = Query, session = session0, table = PyTable events_table, index = Some by_date,
      expression_attributes = 0, params = 1, command = Some client_query,
      hash_value = PyValue (Str ''d1''), range_value = NOT_PROVIDED\<rparr>"

text \<open>A first traversal of a cursor over one page, run to its end.\<close>

definition first_run :: "val run" where
  "first_run =
     PagedQueryResult_iter ext0 scan0 (QueryBase_all scan0) heap2 [Inr (page0 [Str ''a''] None)]"

section \<open>What \<open>_get_params\<close> returns\<close>

text \<open>
  The dictionary that \<open>_get_params\<close> leaves in the cell of the operation, as a
  function of the dictionary it found there, and an entry of the dictionary a call
  returned.
\<close>

definition derived_params :: "'r ext \<Rightarrow> query \<Rightarrow> table \<Rightarrow> pydict \<Rightarrow> pydict" where
  "derived_params ext q t d =
     (let d1 = AList.update ''TableName'' (Str (table_name ext t (session q))) d;
          d2 = (case index q of
                  Some ix \<Rightarrow> AList.update ''IndexName'' (Str (index_name ix)) d1
                | None \<Rightarrow> d1)
      in case cls q of
           Scan \<Rightarrow> d2
         | Query \<Rightarrow>
             AList.update ''KeyConditions''
               (Dct (key_conditions ext (key_fields t) [hash_value q, range_value q])) d2)"

definition returned_entry :: "string \<Rightarrow> error + addr \<times> heap \<Rightarrow> val option" where
  "returned_entry k r = (case r of Inl e \<Rightarrow> None | Inr (a, h) \<Rightarrow> map_of (cells h a) k)"

section \<open>The page loop, one page at a time\<close>

lemma fetches_append: "fetches (es @ fs) = fetches es @ fetches fs"
  by (induction es rule: fetches.induct) simp_all


lemma fetches_map_Yield: "fetches (map Yield ys) = []"
  by (induction ys) simp_all


lemma emit_sel:
  "events (emit es r) = es @ events r"
  "outcome (emit es r) = outcome r"
  "cursor (emit es r) = cursor r"
  "store (emit es r) = store r"
  "unread (emit es r) = unread r"
  by (simp_all add: emit_def)

lemma update_stats_complete:
  "complete res \<Longrightarrow> update_stats c res = (add_page c res, None)"
  by (auto simp: complete_def update_stats_def add_page_def count_of_def scanned_of_def
      QueryResult_count_def QueryResult_scanned_def QueryResult_last_evaluated_key_def Let_def)

lemma QueryResult_iter_complete:
  "complete res \<Longrightarrow> QueryResult_iter ext q res = Inr (decoded ext q res)"
  by (auto simp: complete_def QueryResult_iter_def QueryResult_raw_results_def decoded_def
      items_of_def)

lemma page_loop_next:
  assumes "command q = Some cmd" "complete res" "LastEvaluatedKey res = Some k"
  shows "page_loop ext q c p h (Inr res # rs) =
           emit (Fetch cmd (cells h p) # map Yield (decoded ext q res))
             (page_loop ext q (add_page c res) p (dict_setitem p ''ExclusiveStartKey'' k h) rs)"
  using assms
  by (simp add: update_stats_complete QueryResult_iter_complete
      QueryResult_last_evaluated_key_def)

lemma page_loop_last:
  assumes "command q = Some cmd" "complete res" "LastEvaluatedKey res = None"
  shows "page_loop ext q c p h (Inr res # rs) =
           \<lparr>events = Fetch cmd (cells h p) # map Yield (decoded ext q res),
            outcome = Returned (), cursor = add_page c res, store = h, unread = rs\<rparr>"
  using assms
  by (simp add: update_stats_complete QueryResult_iter_complete
      QueryResult_last_evaluated_key_def)

lemma page_loop_empty:
  assumes "command q = Some cmd"
  shows "page_loop ext q c p h [] =
           \<lparr>events = [Fetch cmd (cells h p)], outcome = NoReply, cursor = c, store = h,
            unread = []\<rparr>"
  using assms by simp

lemma page_loop_first_fetch:
  assumes "command q = Some cmd"
  shows "\<exists>es. events (page_loop ext q c p h rs) = Fetch cmd (cells h p) # es"
proof (cases rs)
  case Nil
  then show ?thesis using assms by simp
next
  case (Cons r rs')
  then show ?thesis using assms
    by (auto simp: emit_sel split: sum.splits prod.splits option.splits)
qed

declare page_loop.simps [simp del]

lemma get_params_table:
  assumes "table q = PyTable t"
  shows "\<exists>h1. get_params ext q h = Inr (params q, h1)"
  using assms
  by (auto simp: get_params_def QueryBase_get_params_def Query_get_params_def Let_def
      split: cls.splits option.splits)

lemma iter_as_loop:
  assumes "table q = PyTable t"
  shows "\<exists>p h2. \<forall>c rs. PagedQueryResult_iter ext q c h rs = page_loop ext q c p h2 rs"
proof -
  from get_params_table [OF assms] obtain h1 where "get_params ext q h = Inr (params q, h1)"
    by blast
  then show ?thesis
    by (auto simp: PagedQueryResult_iter_def snapshot_def dict_copy_def)
qed

section \<open>Full traversals\<close>

lemma loop_closed:
  assumes "command q = Some cmd" "\<forall>r\<in>set pgs. complete r \<and> LastEvaluatedKey r \<noteq> None"
    "complete r" "LastEvaluatedKey r = None"
  shows "outcome (page_loop ext q c p h (map Inr (pgs @ [r]) @ rest)) = Returned ()
       \<and> length (fetches (events (page_loop ext q c p h (map Inr (pgs @ [r]) @ rest))))
           = Suc (length pgs)
       \<and> unread (page_loop ext q c p h (map Inr (pgs @ [r]) @ rest)) = rest"
  using assms
proof (induction pgs arbitrary: c h)
  case Nil
  then show ?case by (simp add: page_loop_last [of q cmd r] fetches_map_Yield)
next
  case (Cons a pgs)
  from Cons.prems obtain k where k: "LastEvaluatedKey a = Some k" and a: "complete a" by auto
  from Cons.prems have tl: "\<forall>r\<in>set pgs. complete r \<and> LastEvaluatedKey r \<noteq> None" by simp
  show ?case
    using Cons.IH [OF Cons.prems(1) tl Cons.prems(3,4)]
    by (simp add: page_loop_next [OF Cons.prems(1) a k] emit_sel fetches_append fetches_map_Yield)
qed

lemma loop_open:
  assumes "command q = Some cmd" "\<forall>r\<in>set pgs. complete r \<and> LastEvaluatedKey r \<noteq> None"
  shows "outcome (page_loop ext q c p h (map Inr pgs)) = NoReply
       \<and> length (fetches (events (page_loop ext q c p h (map Inr pgs)))) = Suc (length pgs)"
  using assms
proof (induction pgs arbitrary: c h)
  case Nil
  then show ?case by (simp add: page_loop_empty [of q cmd])
next
  case (Cons a pgs)
  from Cons.prems obtain k where k: "LastEvaluatedKey a = Some k" and a: "complete a" by auto
  from Cons.prems have tl: "\<forall>r\<in>set pgs. complete r \<and> LastEvaluatedKey r \<noteq> None" by simp
  show ?case
    using Cons.IH [OF Cons.prems(1) tl]
    by (simp add: page_loop_next [OF Cons.prems(1) a k] emit_sel fetches_append fetches_map_Yield)
qed

text \<open>
  Claim C1. A traversal over N pages of which only the last omits \<open>LastEvaluatedKey\<close>
  makes exactly N calls and returns; the replies after the N-th are left unread, so no
  further call is made. A page that carries a continuation key does not end the
  traversal, whatever its item count (zero included): after k such pages the k+1-th
  call has been made.
\<close>

theorem traversal_stops_after_last_page:
  assumes "command q = Some cmd" and "table q = PyTable t"
    and "\<forall>r\<in>set pgs. complete r \<and> LastEvaluatedKey r \<noteq> None"
    and "complete r" and "LastEvaluatedKey r = None"
  shows "outcome (PagedQueryResult_iter ext q c h (map Inr (pgs @ [r]) @ rest)) = Returned ()
       \<and> length (fetches (events (PagedQueryResult_iter ext q c h (map Inr (pgs @ [r]) @ rest))))
           = Suc (length pgs)
       \<and> unread (PagedQueryResult_iter ext q c h (map Inr (pgs @ [r]) @ rest)) = rest
       \<and> outcome (PagedQueryResult_iter ext q c h (map Inr pgs)) = NoReply
       \<and> length (fetches (events (PagedQueryResult_iter ext q c h (map Inr pgs))))
           = Suc (length pgs)"
proof -
  from iter_as_loop [OF assms(2)] obtain p h2
    where "\<forall>c rs. PagedQueryResult_iter ext q c h rs = page_loop ext q c p h2 rs"
    by blast
  then have eq: "PagedQueryResult_iter ext q c h rs = page_loop ext q c p h2 rs" for rs
    by simp
  show ?thesis
    unfolding eq
    using loop_closed [OF assms(1,3,4,5), where ext = ext and c = c and p = p and h = h2
        and rest = rest]
      loop_open [OF assms(1,3), where ext = ext and c = c and p = p and h = h2]
    by blast
qed

theorem traversal_stops_after_last_page_witness:
  "outcome (PagedQueryResult_iter ext0 scan0 PagedQueryResult_init heap2
       [Inr (page0 [Str ''a''] (Some (Str ''k1''))), Inr (page0 [] (Some (Str ''k2''))),
        Inr (page0 [] None), Inr (page0 [Str ''z''] None)]) = Returned ()
   \<and> length (fetches (events (PagedQueryResult_iter ext0 scan0 PagedQueryResult_init heap2
       [Inr (page0 [Str ''a''] (Some (Str ''k1''))), Inr (page0 [] (Some (Str ''k2''))),
        Inr (page0 [] None), Inr (page0 [Str ''z''] None)]))) = 3
   \<and> unread (PagedQueryResult_iter ext0 scan0 PagedQueryResult_init heap2
       [Inr (page0 [Str ''a''] (Some (Str ''k1''))), Inr (page0 [] (Some (Str ''k2''))),
        Inr (page0 [] None), Inr (page0 [Str ''z''] None)]) = [Inr (page0 [Str ''z''] None)]
   \<and> outcome (PagedQueryResult_iter ext0 scan0 PagedQueryResult_init heap2
       [Inr (page0 [Str ''a''] (Some (Str ''k1''))), Inr (page0 [] (Some (Str ''k2'')))]) = NoReply
   \<and> length (fetches (events (PagedQueryResult_iter ext0 scan0 PagedQueryResult_init heap2
       [Inr (page0 [Str ''a''] (Some (Str ''k1''))), Inr (page0 [] (Some (Str ''k2'')))]))) = 3"
proof -
  have 1: "command scan0 = Some client_scan" by (simp add: scan0_def)
  have 2: "table scan0 = PyTable users" by (simp add: scan0_def)
  have 3: "\<forall>r\<in>set [page0 [Str ''a''] (Some (Str ''k1'')), page0 [] (Some (Str ''k2''))].
             complete r \<and> LastEvaluatedKey r \<noteq> None"
    by (simp add: page0_def complete_def)
  have 4: "complete (page0 [] None)" by (simp add: page0_def complete_def)
  have 5: "LastEvaluatedKey (page0 [] None) = None" by (simp add: page0_def)
  from traversal_stops_after_last_page [OF 1 2 3 4 5, of ext0 PagedQueryResult_init heap2
      "[Inr (page0 [Str ''z''] None)]"]
  show ?thesis by simp
qed

lemma loop_threads_key:
  assumes "command q = Some cmd" "\<forall>r\<in>set pgs. complete r \<and> LastEvaluatedKey r \<noteq> None"
    "k < length pgs" "LastEvaluatedKey (pgs ! k) = Some key"
  shows "Suc k < length (fetches (events (page_loop ext q c p h (map Inr pgs @ rest))))
       \<and> fetches (events (page_loop ext q c p h (map Inr pgs @ rest))) ! Suc k =
           (cmd, AList.update ''ExclusiveStartKey'' key
                   (snd (fetches (events (page_loop ext q c p h (map Inr pgs @ rest))) ! k)))
       \<and> fst (fetches (events (page_loop ext q c p h (map Inr pgs @ rest))) ! k) = cmd"
  using assms
proof (induction pgs arbitrary: c h k)
  case Nil
  then show ?case by simp
next
  case (Cons a pgs)
  from Cons.prems obtain ka where ka: "LastEvaluatedKey a = Some ka" and a: "complete a"
    by auto
  from Cons.prems have tl: "\<forall>r\<in>set pgs. complete r \<and> LastEvaluatedKey r \<noteq> None" by simp
  let ?h = "dict_setitem p ''ExclusiveStartKey'' ka h"
  let ?F = "fetches (events (page_loop ext q (add_page c a) p ?h (map Inr pgs @ rest)))"
  have step: "fetches (events (page_loop ext q c p h (Inr a # map Inr pgs @ rest))) =
                (cmd, cells h p) # ?F"
    by (simp add: page_loop_next [OF Cons.prems(1) a ka] emit_sel fetches_append
        fetches_map_Yield)
  show ?case
  proof (cases k)
    case 0
    from page_loop_first_fetch [OF Cons.prems(1)] obtain es
      where "events (page_loop ext q (add_page c a) p ?h (map Inr pgs @ rest)) =
               Fetch cmd (cells ?h p) # es"
      by blast
    then have "?F = (cmd, cells ?h p) # fetches es" by simp
    moreover have "cells ?h p = AList.update ''ExclusiveStartKey'' ka (cells h p)"
      by (simp add: dict_setitem_def)
    moreover have "key = ka" using Cons.prems(4) ka 0 by simp
    ultimately show ?thesis using 0 by (simp add: step)
  next
    case (Suc k')
    with Cons.prems have "k' < length pgs" "LastEvaluatedKey (pgs ! k') = Some key" by simp_all
    from Cons.IH [OF Cons.prems(1) tl this, of "add_page c a" ?h]
    show ?thesis using Suc by (simp add: step)
  qed
qed

text \<open>
  Claim C2. Let the first pages of a traversal all carry a continuation key, and let
  \<open>key\<close> be the \<open>LastEvaluatedKey\<close> of the reply to call \<open>k\<close> (counted from 0).
  Then call \<open>k + 1\<close> is made, its keyword arguments hold \<open>ExclusiveStartKey = key\<close>,
  every other keyword argument is that of call \<open>k\<close>, and it goes to the same client
  command. What follows these pages (a last page, a failure, nothing) is arbitrary.
\<close>

theorem continuation_key_is_threaded:
  assumes "command q = Some cmd" and "table q = PyTable t"
    and "\<forall>r\<in>set pgs. complete r \<and> LastEvaluatedKey r \<noteq> None"
    and "k < length pgs" and "LastEvaluatedKey (pgs ! k) = Some key"
  shows "Suc k < length (fetches (events (PagedQueryResult_iter ext q c h (map Inr pgs @ rest))))
       \<and> map_of (snd (fetches (events (PagedQueryResult_iter ext q c h (map Inr pgs @ rest)))
                        ! Suc k)) ''ExclusiveStartKey'' = Some key
       \<and> (\<forall>x. x \<noteq> ''ExclusiveStartKey'' \<longrightarrow>
             map_of (snd (fetches (events (PagedQueryResult_iter ext q c h (map Inr pgs @ rest)))
                          ! Suc k)) x
           = map_of (snd (fetches (events (PagedQueryResult_iter ext q c h (map Inr pgs @ rest)))
                          ! k)) x)
       \<and> fst (fetches (events (PagedQueryResult_iter ext q c h (map Inr pgs @ rest))) ! Suc k)
           = fst (fetches (events (PagedQueryResult_iter ext q c h (map Inr pgs @ rest))) ! k)"
proof -
  from iter_as_loop [OF assms(2)] obtain p h2
    where "\<forall>c rs. PagedQueryResult_iter ext q c h rs = page_loop ext q c p h2 rs"
    by blast
  then have eq: "PagedQueryResult_iter ext q c h rs = page_loop ext q c p h2 rs" for rs
    by simp
  show ?thesis
    unfolding eq
    using loop_threads_key [OF assms(1,3,4,5), where ext = ext and c = c and p = p and h = h2
        and rest = rest]
    by (simp add: update_conv')
qed

theorem continuation_key_is_threaded_witness:
  "map_of (snd (fetches (events (PagedQueryResult_iter ext0 scan0 PagedQueryResult_init heap2
       [Inr (page0 [Str ''a''] (Some (Str ''k1''))), Inr (page0 [] (Some (Str ''k2''))),
        Inr (page0 [] None)])) ! 2)) ''ExclusiveStartKey'' = Some (Str ''k2'')
   \<and> map_of (snd (fetches (events (PagedQueryResult_iter ext0 scan0 PagedQueryResult_init heap2
       [Inr (page0 [Str ''a''] (Some (Str ''k1''))), Inr (page0 [] (Some (Str ''k2''))),
        Inr (page0 [] None)])) ! 2)) ''TableName''
     = map_of (snd (fetches (events (PagedQueryResult_iter ext0 scan0 PagedQueryResult_init heap2
       [Inr (page0 [Str ''a''] (Some (Str ''k1''))), Inr (page0 [] (Some (Str ''k2''))),
        Inr (page0 [] None)])) ! 1)) ''TableName''"
proof -
  have 1: "command scan0 = Some client_scan" by (simp add: scan0_def)
  have 2: "table scan0 = PyTable users" by (simp add: scan0_def)
  have 3: "\<forall>r\<in>set [page0 [Str ''a''] (Some (Str ''k1'')), page0 [] (Some (Str ''k2''))].
             complete r \<and> LastEvaluatedKey r \<noteq> None"
    by (simp add: page0_def complete_def)
  have 4: "1 < length [page0 [Str ''a''] (Some (Str ''k1'')), page0 [] (Some (Str ''k2''))]"
    by simp
  have 5: "LastEvaluatedKey ([page0 [Str ''a''] (Some (Str ''k1'')), page0 [] (Some (Str ''k2''))] ! 1)
             = Some (Str ''k2'')"
    by (simp add: page0_def)
  from continuation_key_is_threaded [OF 1 2 3 4 5, of ext0 PagedQueryResult_init heap2
      "[Inr (page0 [] None)]"]
  show ?thesis by (simp add: numeral_2_eq_2)
qed





section \<open>Builder methods and iteration of an operation\<close>

text \<open>
  Claim C10. Iterating an operation is iterating the cursor that \<open>all()\<close> returns: the
  same trace of calls and yielded values, the same outcome, the same store and the same
  unread replies, for every operation, store and sequence of replies.
\<close>

theorem iterating_an_operation_is_iterating_all:
  "events (QueryBase_iter ext q h rs) = events (PagedQueryResult_iter ext q (QueryBase_all q) h rs)
   \<and> outcome (QueryBase_iter ext q h rs)
       = outcome (PagedQueryResult_iter ext q (QueryBase_all q) h rs)
   \<and> store (QueryBase_iter ext q h rs) = store (PagedQueryResult_iter ext q (QueryBase_all q) h rs)
   \<and> unread (QueryBase_iter ext q h rs)
       = unread (PagedQueryResult_iter ext q (QueryBase_all q) h rs)"
  by (simp add: QueryBase_iter_def)

text \<open>
  Claim C9. \<open>select\<close> and \<open>consumed_capacity\<close> with a value outside their closed set
  raise at once (the assertion fails; no parameter is recorded, and a builder method has
  no access to the client). With a value of the set they return the operation and
  record the value under \<open>Select\<close>, respectively \<open>ReturnConsumedCapacity\<close>.
\<close>

theorem select_and_capacity_validate:
  "(v \<notin> {Str ''ALL_ATTRIBUTES'', Str ''ALL_PROJECTED_ATTRIBUTES'', Str ''COUNT'',
          Str ''SPECIFIC_ATTRIBUTES''} \<longrightarrow>
      QueryBase_select q (Some v) h = Inl AssertionError)
   \<and> (v \<in> {Str ''ALL_ATTRIBUTES'', Str ''ALL_PROJECTED_ATTRIBUTES'', Str ''COUNT'',
            Str ''SPECIFIC_ATTRIBUTES''} \<longrightarrow>
        QueryBase_select q (Some v) h = Inr (q, dict_setitem (params q) ''Select'' v h)
        \<and> map_of (cells (dict_setitem (params q) ''Select'' v h) (params q)) ''Select'' = Some v)
   \<and> (w \<notin> {Str ''INDEXES'', Str ''TOTAL'', Str ''NONE''} \<longrightarrow>
        QueryBase_consumed_capacity q (Some w) h = Inl AssertionError)
   \<and> (w \<in> {Str ''INDEXES'', Str ''TOTAL'', Str ''NONE''} \<longrightarrow>
        QueryBase_consumed_capacity q (Some w) h
          = Inr (q, dict_setitem (params q) ''ReturnConsumedCapacity'' w h)
        \<and> map_of (cells (dict_setitem (params q) ''ReturnConsumedCapacity'' w h) (params q))
              ''ReturnConsumedCapacity'' = Some w)"
  by (auto simp: QueryBase_select_def QueryBase_consumed_capacity_def select_values_def
      consumed_capacity_values_def dict_setitem_def update_conv')

theorem select_and_capacity_validate_witness:
  "QueryBase_select scan0 (Some (Str ''EVERYTHING'')) heap2 = Inl AssertionError
   \<and> QueryBase_select scan0 (Some (Str ''COUNT'')) heap2
       = Inr (scan0, dict_setitem (params scan0) ''Select'' (Str ''COUNT'') heap2)
   \<and> map_of (cells (dict_setitem (params scan0) ''Select'' (Str ''COUNT'') heap2) (params scan0))
        ''Select'' = Some (Str ''COUNT'')
   \<and> QueryBase_consumed_capacity scan0 (Some (Num 1)) heap2 = Inl AssertionError
   \<and> QueryBase_consumed_capacity scan0 (Some (Str ''NONE'')) heap2
       = Inr (scan0, dict_setitem (params scan0) ''ReturnConsumedCapacity'' (Str ''NONE'') heap2)"
  using select_and_capacity_validate [of "Str ''EVERYTHING''" scan0 heap2 "Num 1"]
    select_and_capacity_validate [of "Str ''COUNT''" scan0 heap2 "Str ''NONE''"]
  by simp

section \<open>Constructors, \<open>copy\<close> and the legacy \<open>index\<close> method\<close>

lemma heap0_alloc2:
  "\<lparr>cells = (\<lambda>a. [])(0 := [], Suc 0 := []), next_free = Suc (Suc 0)\<rparr> = heap2"
  by (simp add: heap2_def fun_eq_iff)

lemma scan0_constructed: "Scan_init [session0, PyTable users] heap0 = Inr (scan0, heap2)"
  by (simp add: Scan_init_def dict_new_def heap0_def session0_def scan0_def heap0_alloc2)

lemma query0_constructed:
  "Query_init (PyValue (Str ''d1'')) [session0, PyTable events_table] heap0 = Inr (query0, heap2)"
  by (simp add: Query_init_def dict_new_def heap0_def session0_def query0_def heap0_alloc2)

lemma scan_by_date_constructed:
  "Scan_init [session0, PyIndex by_date] heap0 = Inr (scan_by_date, heap2)"
  by (simp add: Scan_init_def dict_new_def heap0_def session0_def scan_by_date_def heap0_alloc2
      by_date_def)

text \<open>
  Claim C6, evaluated. \<open>copy\<close> calls \<open>self.__class__(self.session, self.table)\<close>.
  For a \<open>Query\<close> the session is bound to \<open>hash_value\<close> and the table alone is passed
  on to \<open>QueryBase.__init__\<close>, which needs two arguments: the call raises. For a
  \<open>Scan\<close> built against an index the copy is built against the table, and its
  \<open>index\<close> is \<open>None\<close>.
\<close>

theorem copy_of_a_query_raises:
  "Query_init (PyValue (Str ''d1'')) [session0, PyTable events_table] heap0 = Inr (query0, heap2)
   \<and> QueryBase_copy query0 heap2 = Inl TypeError
   \<and> Scan_init [session0, PyIndex by_date] heap0 = Inr (scan_by_date, heap2)
   \<and> index scan_by_date = Some by_date
   \<and> map_sum id (index \<circ> fst) (QueryBase_copy scan_by_date heap2) = Inr None"
  by (simp add: query0_constructed scan_by_date_constructed)
    (simp add: QueryBase_copy_def query0_def scan_by_date_def Query_init_def Scan_init_def
      session0_def dict_new_def dict_copy_def heap2_def)

text \<open>
  Claim C7, evaluated. On an operation, \<open>op.index\<close> is the instance attribute that
  \<open>__init__\<close> assigned, not the method of the class: \<open>op.index('by_date')\<close> raises,
  whether the operation was built against a table or against an index.
\<close>

theorem legacy_index_method_is_shadowed:
  "Scan_init [session0, PyTable users] heap0 = Inr (scan0, heap2)
   \<and> call_index scan0 (Str ''by_date'') heap2 = Inl TypeError
   \<and> Scan_init [session0, PyIndex by_date] heap0 = Inr (scan_by_date, heap2)
   \<and> call_index scan_by_date (Str ''by_date'') heap2 = Inl TypeError"
  by (simp add: scan0_constructed scan_by_date_constructed)
    (simp add: call_index_def getattr_index_def scan0_def scan_by_date_def)

section \<open>The store during an execution\<close>

lemma update_stats_error_indep: "snd (update_stats c res) = snd (update_stats c' res)"
  by (simp add: update_stats_def Let_def split: sum.splits)

lemma QueryResult_iter_table:
  "table q' = table q \<Longrightarrow> QueryResult_iter ext q' res = QueryResult_iter ext q res"
  by (simp add: QueryResult_iter_def split: sum.splits)

lemma page_loop_store_frame:
  "a \<noteq> p \<Longrightarrow> cells (store (page_loop ext q c p h rs)) a = cells h a"
proof (induction rs arbitrary: c h)
  case Nil
  then show ?case by (simp add: page_loop.simps split: option.splits)
next
  case (Cons r rs)
  then show ?case
    by (simp add: page_loop.simps emit_sel dict_setitem_def
        split: option.splits sum.splits prod.splits)
qed

lemma page_loop_next_free:
  "next_free (store (page_loop ext q c p h rs)) = next_free h"
proof (induction rs arbitrary: c h)
  case Nil
  then show ?case by (simp add: page_loop.simps split: option.splits)
next
  case (Cons r rs)
  then show ?case
    by (simp add: page_loop.simps emit_sel dict_setitem_def
        split: option.splits sum.splits prod.splits)
qed

lemma page_loop_depends_on_private_dict:
  assumes "cells h' p' = cells h p" "command q' = command q" "table q' = table q"
  shows "events (page_loop ext q' c' p' h' rs) = events (page_loop ext q c p h rs)
       \<and> outcome (page_loop ext q' c' p' h' rs) = outcome (page_loop ext q c p h rs)
       \<and> unread (page_loop ext q' c' p' h' rs) = unread (page_loop ext q c p h rs)"
  using assms
proof (induction rs arbitrary: c c' h h')
  case Nil
  then show ?case by (simp add: page_loop.simps split: option.splits)
next
  case (Cons r rs)
  show ?case
  proof (cases "command q")
    case None
    then show ?thesis using Cons.prems by (simp add: page_loop.simps)
  next
    case (Some cmd)
    show ?thesis
    proof (cases r)
      case (Inl e)
      then show ?thesis using Some Cons.prems by (simp add: page_loop.simps)
    next
      case (Inr res)
      obtain c1 e1 where u: "update_stats c res = (c1, e1)" by (cases "update_stats c res")
      obtain c1' e1' where u': "update_stats c' res = (c1', e1')"
        by (cases "update_stats c' res")
      from update_stats_error_indep [of c res c'] u u' have e: "e1' = e1" by simp
      show ?thesis
      proof (cases e1)
        case (Some err)
        then show ?thesis
          using Inr \<open>command q = Some cmd\<close> Cons.prems u u' e
          by (simp add: page_loop.simps)
      next
        case None
        show ?thesis
        proof (cases "QueryResult_iter ext q res")
          case (Inl err)
          then show ?thesis
            using Inr \<open>command q = Some cmd\<close> Cons.prems u u' e None
              QueryResult_iter_table [OF Cons.prems(3), of ext res]
            by (simp add: page_loop.simps)
        next
          case ys: (Inr ys)
          show ?thesis
          proof (cases "QueryResult_last_evaluated_key res")
            case lek: None
            then show ?thesis
              using Inr \<open>command q = Some cmd\<close> Cons.prems u u' e None ys
                QueryResult_iter_table [OF Cons.prems(3), of ext res]
              by (simp add: page_loop.simps)
          next
            case lek: (Some k)
            have "cells (dict_setitem p' ''ExclusiveStartKey'' k h') p'
                    = cells (dict_setitem p ''ExclusiveStartKey'' k h) p"
              using Cons.prems(1) by (simp add: dict_setitem_def)
            from Cons.IH [OF this Cons.prems(2,3), of c1' c1]
            show ?thesis
              using Inr \<open>command q = Some cmd\<close> Cons.prems u u' e None ys lek
                QueryResult_iter_table [OF Cons.prems(3), of ext res]
              by (simp add: page_loop.simps emit_sel)
          qed
        qed
      qed
    qed
  qed
qed

lemma get_params_derived:
  assumes "table q = PyTable t"
  shows "get_params ext q h =
           Inr (params q,
                h\<lparr>cells := (cells h)(params q := derived_params ext q t (cells h (params q)))\<rparr>)"
  using assms
  by (simp add: get_params_def QueryBase_get_params_def Query_get_params_def Let_def
      derived_params_def dict_setitem_def split: cls.splits option.splits)

lemma get_params_no_table:
  assumes "\<forall>t. table q \<noteq> PyTable t"
  shows "get_params ext q h = Inl AttributeError"
  using assms
  by (cases "table q")
    (simp_all add: get_params_def QueryBase_get_params_def Query_get_params_def
      split: cls.splits)

lemma derived_params_other_keys:
  assumes "k \<notin> {''TableName'', ''IndexName'', ''KeyConditions''}"
  shows "map_of (derived_params ext q t d) k = map_of d k"
  using assms
  by (simp add: derived_params_def Let_def update_conv' split: cls.splits option.splits)

lemma derived_params_idem:
  "derived_params ext q t (derived_params ext q t d) = derived_params ext q t d"
  by (simp add: derived_params_def Let_def update_triv update_conv'
      split: cls.splits option.splits)

lemma snapshot_table:
  assumes "table q = PyTable t"
  shows "snapshot ext q h =
           Inr (next_free h,
                h\<lparr>cells := (cells h)(params q := derived_params ext q t (cells h (params q)),
                                      next_free h := derived_params ext q t (cells h (params q))),
                  next_free := Suc (next_free h)\<rparr>)"
  by (simp add: snapshot_def get_params_derived [OF assms] dict_copy_def)

lemma snapshot_no_table:
  assumes "\<forall>t. table q \<noteq> PyTable t"
  shows "snapshot ext q h = Inl AttributeError"
  by (simp add: snapshot_def get_params_no_table [OF assms])

text \<open>
  Claim C4 fails on the code: a cursor whose traversal has returned is iterated again,
  and the client is called again and a value is yielded.
\<close>

theorem exhausted_cursor_restarts_counterexample:
  "outcome first_run = Returned ()
   \<and> events (PagedQueryResult_iter ext0 scan0 (cursor first_run) (store first_run)
               [Inr (page0 [Str ''b''] None)])
       = [Fetch client_scan [(''TableName'', Str ''users'')], Yield (Str ''b'')]"
  by (simp add: first_run_def PagedQueryResult_iter_def snapshot_def get_params_def
      QueryBase_get_params_def dict_setitem_def dict_copy_def scan0_def heap2_def users_def
      ext0_def page0_def page_loop.simps update_stats_def QueryResult_count_def
      QueryResult_scanned_def QueryResult_last_evaluated_key_def QueryResult_iter_def
      QueryResult_raw_results_def session0_def Let_def)

text \<open>
  Claim C4 as amended. \<open>__iter__\<close> is a generator function: iterating the same cursor
  again, after a traversal that ended in whatever way, starts a new traversal from the
  parameters of the operation. Given the further replies of the client it makes the calls
  and yields the values that a cursor newly obtained from \<open>all()\<close> would have made and
  yielded on the original store, and ends the same way.
\<close>

theorem exhausted_cursor_restarts:
  assumes "params q < next_free h"
  shows "events (PagedQueryResult_iter ext q
                   (cursor (PagedQueryResult_iter ext q c h rs1))
                   (store (PagedQueryResult_iter ext q c h rs1)) rs2)
           = events (PagedQueryResult_iter ext q (QueryBase_all q) h rs2)
       \<and> outcome (PagedQueryResult_iter ext q
                   (cursor (PagedQueryResult_iter ext q c h rs1))
                   (store (PagedQueryResult_iter ext q c h rs1)) rs2)
           = outcome (PagedQueryResult_iter ext q (QueryBase_all q) h rs2)
       \<and> unread (PagedQueryResult_iter ext q
                   (cursor (PagedQueryResult_iter ext q c h rs1))
                   (store (PagedQueryResult_iter ext q c h rs1)) rs2)
           = unread (PagedQueryResult_iter ext q (QueryBase_all q) h rs2)"
proof (cases "\<exists>t. table q = PyTable t")
  case False
  then have "\<forall>t. table q \<noteq> PyTable t" by simp
  then show ?thesis
    by (simp add: PagedQueryResult_iter_def snapshot_no_table)
next
  case True
  then obtain t where t: "table q = PyTable t" by blast
  let ?D = "derived_params ext q t (cells h (params q))"
  let ?h2 = "h\<lparr>cells := (cells h)(params q := ?D, next_free h := ?D),
                next_free := Suc (next_free h)\<rparr>"
  let ?r1 = "page_loop ext q c (next_free h) ?h2 rs1"
  have first: "PagedQueryResult_iter ext q c' h rs = page_loop ext q c' (next_free h) ?h2 rs"
    for c' rs
    by (simp add: PagedQueryResult_iter_def snapshot_table [OF t])
  have op_cell: "cells (store ?r1) (params q) = ?D"
    using assms by (simp add: page_loop_store_frame)
  let ?D' = "derived_params ext q t (cells (store ?r1) (params q))"
  let ?h2' = "(store ?r1)\<lparr>cells := (cells (store ?r1))(params q := ?D',
                                                      next_free (store ?r1) := ?D'),
                          next_free := Suc (next_free (store ?r1))\<rparr>"
  have second: "PagedQueryResult_iter ext q c' (store ?r1) rs
                  = page_loop ext q c' (next_free (store ?r1)) ?h2' rs"
    for c' rs
    by (simp add: PagedQueryResult_iter_def snapshot_table [OF t])
  have same: "cells ?h2' (next_free (store ?r1)) = cells ?h2 (next_free h)"
    by (simp add: op_cell derived_params_idem)
  from page_loop_depends_on_private_dict [OF same refl refl,
      where ext = ext and c' = "cursor ?r1" and rs = rs2 and c = "QueryBase_all q"]
  show ?thesis
    unfolding first second by simp
qed

theorem exhausted_cursor_restarts_witness:
  "events (PagedQueryResult_iter ext0 scan0 (cursor first_run) (store first_run)
             [Inr (page0 [Str ''b''] None)])
     = events (PagedQueryResult_iter ext0 scan0 (QueryBase_all scan0) heap2
                 [Inr (page0 [Str ''b''] None)])"
proof -
  have "params scan0 < next_free heap2" by (simp add: scan0_def heap2_def)
  from exhausted_cursor_restarts [OF this, of ext0 "QueryBase_all scan0"
      "[Inr (page0 [Str ''a''] None)]" "[Inr (page0 [Str ''b''] None)]"]
  show ?thesis by (simp add: first_run_def)
qed

lemma query_by_date_constructed:
  "Query_init (PyValue (Str ''d1'')) [session0, PyIndex by_date] heap0 = Inr (query_by_date, heap2)"
  by (simp add: Query_init_def dict_new_def heap0_def session0_def query_by_date_def
      heap0_alloc2 by_date_def)

text \<open>
  Claim C5 fails on the code: the parameter dictionary of the operation has no
  \<open>TableName\<close> before an execution and has one after it, for \<open>single()\<close> and for a
  traversal. For a query built against an index the same holds of \<open>IndexName\<close> and
  \<open>KeyConditions\<close>.
\<close>

theorem execution_writes_derived_keys_counterexample:
  "map_of (cells heap2 (params scan0)) ''TableName'' = None
   \<and> map_of (cells (s_store (QueryBase_single ext0 scan0 heap2 [Inr (page0 [] None)]))
               (params scan0)) ''TableName'' = Some (Str ''users'')
   \<and> map_of (cells (store (PagedQueryResult_iter ext0 scan0 (QueryBase_all scan0) heap2
                               [Inr (page0 [] None)]))
               (params scan0)) ''TableName'' = Some (Str ''users'')
   \<and> map_of (cells heap2 (params query_by_date)) ''IndexName'' = None
   \<and> map_of (cells (s_store (QueryBase_single ext0 query_by_date heap2 [Inr (page0 [] None)]))
               (params query_by_date)) ''IndexName'' = Some (Str ''by_date'')
   \<and> map_of (cells heap2 (params query_by_date)) ''KeyConditions'' = None
   \<and> map_of (cells (s_store (QueryBase_single ext0 query_by_date heap2 [Inr (page0 [] None)]))
               (params query_by_date)) ''KeyConditions''
       = Some (Dct [(''device'',
                     Dct [(''AttributeValueList'', Lst [Dct [(''S'', Str ''d1'')]])])])"
  by (simp add: QueryBase_single_def PagedQueryResult_iter_def snapshot_def get_params_def
      QueryBase_get_params_def Query_get_params_def key_conditions_def dict_setitem_def
      dict_copy_def scan0_def query_by_date_def by_date_def events_table_def heap2_def
      users_def ext0_def page0_def page_loop.simps update_stats_def QueryResult_count_def
      QueryResult_scanned_def QueryResult_last_evaluated_key_def QueryResult_iter_def
      QueryResult_raw_results_def session0_def Let_def)

lemma single_store_cell:
  assumes "table q = PyTable t"
  shows "cells (s_store (QueryBase_single ext q h rs)) (params q)
           = derived_params ext q t (cells h (params q))"
  by (simp add: QueryBase_single_def get_params_derived [OF assms]
      split: option.splits list.splits sum.splits)

lemma iter_store_cell:
  assumes "params q < next_free h" "table q = PyTable t"
  shows "cells (store (PagedQueryResult_iter ext q c h rs)) (params q)
           = derived_params ext q t (cells h (params q))"
  using assms(1)
  by (simp add: PagedQueryResult_iter_def snapshot_table [OF assms(2)] page_loop_store_frame)

lemma derived_params_TableName:
  "map_of (derived_params ext q t d) ''TableName'' = Some (Str (table_name ext t (session q)))"
  by (simp add: derived_params_def Let_def update_conv' split: cls.splits option.splits)

lemma derived_params_IndexName:
  "map_of (derived_params ext q t d) ''IndexName''
     = (case index q of Some ix \<Rightarrow> Some (Str (index_name ix)) | None \<Rightarrow> map_of d ''IndexName'')"
  by (simp add: derived_params_def Let_def update_conv' split: cls.splits option.splits)

lemma derived_params_KeyConditions:
  "map_of (derived_params ext q t d) ''KeyConditions''
     = (case cls q of
          Query \<Rightarrow>
            Some (Dct (key_conditions ext (key_fields t) [hash_value q, range_value q]))
        | Scan \<Rightarrow> map_of d ''KeyConditions'')"
  by (simp add: derived_params_def Let_def update_conv' split: cls.splits option.splits)

lemma iter_store_op_cell:
  assumes "params q < next_free h" "k \<notin> {''TableName'', ''IndexName'', ''KeyConditions''}"
  shows "map_of (cells (store (PagedQueryResult_iter ext q c h rs)) (params q)) k
           = map_of (cells h (params q)) k"
proof (cases "\<exists>t. table q = PyTable t")
  case False
  then have "\<forall>t. table q \<noteq> PyTable t" by simp
  then show ?thesis by (simp add: PagedQueryResult_iter_def snapshot_no_table)
next
  case True
  then obtain t where t: "table q = PyTable t" by blast
  show ?thesis
    using derived_params_other_keys [OF assms(2), of ext q t "cells h (params q)"]
    by (simp add: iter_store_cell [OF assms(1) t])
qed

lemma single_store_op_cell:
  assumes "k \<notin> {''TableName'', ''IndexName'', ''KeyConditions''}"
  shows "map_of (cells (s_store (QueryBase_single ext q h rs)) (params q)) k
           = map_of (cells h (params q)) k"
proof (cases "\<exists>t. table q = PyTable t")
  case False
  then have "\<forall>t. table q \<noteq> PyTable t" by simp
  then show ?thesis by (simp add: QueryBase_single_def get_params_no_table)
next
  case True
  then obtain t where t: "table q = PyTable t" by blast
  show ?thesis
    using derived_params_other_keys [OF assms, of ext q t "cells h (params q)"]
    by (simp add: single_store_cell [OF t])
qed

lemma snapshot_private:
  assumes "params q < next_free h" "snapshot ext q h = Inr (p, h2)"
  shows "p \<noteq> params q"
proof (cases "\<exists>t. table q = PyTable t")
  case False
  then have "\<forall>t. table q \<noteq> PyTable t" by simp
  from snapshot_no_table [OF this, of ext h] assms(2) show ?thesis by simp
next
  case True
  then obtain t where t: "table q = PyTable t" by blast
  from snapshot_table [OF t, of ext h] assms show ?thesis by auto
qed

text \<open>
  Claim C5 as amended. Executing an operation on a table, by \<open>single()\<close> or by a
  traversal, writes the derived keys into the operation's own parameter dictionary:
  \<open>TableName\<close> always, \<open>IndexName\<close> when the operation was built against an index
  (otherwise that key is left as it was), and \<open>KeyConditions\<close> when the operation is
  a \<open>Query\<close> (for a \<open>Scan\<close> that key is left as it was). Every other key of that
  dictionary is left as it was; in particular the continuation key goes to the private
  copy only. Once a traversal has taken its snapshot, its loop runs on the private copy:
  whatever is written to the operation's dictionary afterwards, and whatever becomes of
  the operation's other attributes as long as its command and table stay, the trace and
  the outcome of the loop are the same.
\<close>

theorem execution_writes_derived_keys_only:
  assumes "params q < next_free h"
  shows "(\<forall>t. table q = PyTable t \<longrightarrow>
            map_of (cells (s_store (QueryBase_single ext q h rs)) (params q)) ''TableName''
              = Some (Str (table_name ext t (session q)))
          \<and> map_of (cells (store (PagedQueryResult_iter ext q c h rs)) (params q)) ''TableName''
              = Some (Str (table_name ext t (session q)))
          \<and> map_of (cells (s_store (QueryBase_single ext q h rs)) (params q)) ''IndexName''
              = (case index q of
                   Some ix \<Rightarrow> Some (Str (index_name ix))
                 | None \<Rightarrow> map_of (cells h (params q)) ''IndexName'')
          \<and> map_of (cells (store (PagedQueryResult_iter ext q c h rs)) (params q)) ''IndexName''
              = (case index q of
                   Some ix \<Rightarrow> Some (Str (index_name ix))
                 | None \<Rightarrow> map_of (cells h (params q)) ''IndexName'')
          \<and> map_of (cells (s_store (QueryBase_single ext q h rs)) (params q)) ''KeyConditions''
              = (case cls q of
                   Query \<Rightarrow>
                     Some (Dct (key_conditions ext (key_fields t)
                                  [hash_value q, range_value q]))
                 | Scan \<Rightarrow> map_of (cells h (params q)) ''KeyConditions'')
          \<and> map_of (cells (store (PagedQueryResult_iter ext q c h rs)) (params q))
                ''KeyConditions''
              = (case cls q of
                   Query \<Rightarrow>
                     Some (Dct (key_conditions ext (key_fields t)
                                  [hash_value q, range_value q]))
                 | Scan \<Rightarrow> map_of (cells h (params q)) ''KeyConditions''))
       \<and> (\<forall>k. k \<notin> {''TableName'', ''IndexName'', ''KeyConditions''} \<longrightarrow>
            map_of (cells (s_store (QueryBase_single ext q h rs)) (params q)) k
              = map_of (cells h (params q)) k
          \<and> map_of (cells (store (PagedQueryResult_iter ext q c h rs)) (params q)) k
              = map_of (cells h (params q)) k)
       \<and> (\<forall>p h2 h' d c' rs' q'.
            snapshot ext q h = Inr (p, h2) \<and> command q' = command q \<and> table q' = table q \<longrightarrow>
              PagedQueryResult_iter ext q c h rs = page_loop ext q c p h2 rs
            \<and> events (page_loop ext q' c' p (h'\<lparr>cells := (cells h')(params q := d)\<rparr>) rs')
                = events (page_loop ext q c' p h' rs')
            \<and> outcome (page_loop ext q' c' p (h'\<lparr>cells := (cells h')(params q := d)\<rparr>) rs')
                = outcome (page_loop ext q c' p h' rs'))"
proof -
  have written: "map_of (cells (s_store (QueryBase_single ext q h rs)) (params q)) ''TableName''
              = Some (Str (table_name ext t (session q)))
          \<and> map_of (cells (store (PagedQueryResult_iter ext q c h rs)) (params q)) ''TableName''
              = Some (Str (table_name ext t (session q)))
          \<and> map_of (cells (s_store (QueryBase_single ext q h rs)) (params q)) ''IndexName''
              = (case index q of
                   Some ix \<Rightarrow> Some (Str (index_name ix))
                 | None \<Rightarrow> map_of (cells h (params q)) ''IndexName'')
          \<and> map_of (cells (store (PagedQueryResult_iter ext q c h rs)) (params q)) ''IndexName''
              = (case index q of
                   Some ix \<Rightarrow> Some (Str (index_name ix))
                 | None \<Rightarrow> map_of (cells h (params q)) ''IndexName'')
          \<and> map_of (cells (s_store (QueryBase_single ext q h rs)) (params q)) ''KeyConditions''
              = (case cls q of
                   Query \<Rightarrow>
                     Some (Dct (key_conditions ext (key_fields t)
                                  [hash_value q, range_value q]))
                 | Scan \<Rightarrow> map_of (cells h (params q)) ''KeyConditions'')
          \<and> map_of (cells (store (PagedQueryResult_iter ext q c h rs)) (params q))
                ''KeyConditions''
              = (case cls q of
                   Query \<Rightarrow>
                     Some (Dct (key_conditions ext (key_fields t)
                                  [hash_value q, range_value q]))
                 | Scan \<Rightarrow> map_of (cells h (params q)) ''KeyConditions'')"
    if t: "table q = PyTable t" for t
    by (simp only: single_store_cell [OF t] iter_store_cell [OF assms t]
        derived_params_TableName derived_params_IndexName derived_params_KeyConditions
        simp_thms)
  have kept: "map_of (cells (s_store (QueryBase_single ext q h rs)) (params q)) k
              = map_of (cells h (params q)) k
          \<and> map_of (cells (store (PagedQueryResult_iter ext q c h rs)) (params q)) k
              = map_of (cells h (params q)) k"
    if k: "k \<notin> {''TableName'', ''IndexName'', ''KeyConditions''}" for k
    using single_store_op_cell [OF k] iter_store_op_cell [OF assms k] by blast
  have frame: "PagedQueryResult_iter ext q c h rs = page_loop ext q c p h2 rs
            \<and> events (page_loop ext q' c' p (h'\<lparr>cells := (cells h')(params q := d)\<rparr>) rs')
                = events (page_loop ext q c' p h' rs')
            \<and> outcome (page_loop ext q' c' p (h'\<lparr>cells := (cells h')(params q := d)\<rparr>) rs')
                = outcome (page_loop ext q c' p h' rs')"
    if a: "snapshot ext q h = Inr (p, h2) \<and> command q' = command q \<and> table q' = table q"
    for p h2 and h' :: heap and d c' rs' and q' :: query
  proof -
    from a have it: "PagedQueryResult_iter ext q c h rs = page_loop ext q c p h2 rs"
      by (simp add: PagedQueryResult_iter_def)
    from a snapshot_private [OF assms] have ne: "p \<noteq> params q" by blast
    then have same: "cells (h'\<lparr>cells := (cells h')(params q := d)\<rparr>) p = cells h' p"
      by simp
    from a have cq: "command q' = command q" and tq: "table q' = table q" by simp_all
    from page_loop_depends_on_private_dict [OF same cq tq, where ext = ext and c' = c'
        and c = c' and rs = rs'] it
    show ?thesis by simp
  qed
  show ?thesis
    apply (rule conjI)
     apply (intro allI impI)
     apply (erule written)
    apply (rule conjI)
     apply (intro allI impI)
     apply (erule kept)
    apply (intro allI impI)
    apply (erule frame)
    done
qed

theorem execution_writes_derived_keys_only_witness:
  "map_of (cells (s_store (QueryBase_single ext0 scan0 heap2 [Inr (page0 [] None)]))
             (params scan0)) ''Limit''
     = map_of (cells heap2 (params scan0)) ''Limit''
   \<and> map_of (cells (store (PagedQueryResult_iter ext0 scan0 (QueryBase_all scan0) heap2
                              [Inr (page0 [] None)])) (params scan0)) ''ExclusiveStartKey''
     = map_of (cells heap2 (params scan0)) ''ExclusiveStartKey''
   \<and> events (page_loop ext0 scan0 PagedQueryResult_init (next_free heap2)
               (heap2\<lparr>cells := (cells heap2)(params scan0 := [(''Limit'', Num 5)])\<rparr>)
               [Inr (page0 [] None)])
     = events (page_loop ext0 scan0 PagedQueryResult_init (next_free heap2) heap2
                 [Inr (page0 [] None)])
   \<and> map_of (cells (store (PagedQueryResult_iter ext0 query_by_date (QueryBase_all query_by_date)
                              heap2 [Inr (page0 [] None)])) (params query_by_date)) ''TableName''
     = Some (Str ''events'')
   \<and> map_of (cells (store (PagedQueryResult_iter ext0 query_by_date (QueryBase_all query_by_date)
                              heap2 [Inr (page0 [] None)])) (params query_by_date)) ''IndexName''
     = Some (Str ''by_date'')
   \<and> map_of (cells (s_store (QueryBase_single ext0 query_by_date heap2 [Inr (page0 [] None)]))
               (params query_by_date)) ''KeyConditions''
     = Some (Dct [(''device'', Dct [(''AttributeValueList'', Lst [Dct [(''S'', Str ''d1'')]])])])"
proof -
  have 1: "params scan0 < next_free heap2" by (simp add: scan0_def heap2_def)
  have 2: "table scan0 = PyTable users" by (simp add: scan0_def)
  have 3: "params query_by_date < next_free heap2" by (simp add: query_by_date_def heap2_def)
  have 4: "table query_by_date = PyTable events_table" by (simp add: query_by_date_def)
  note T = execution_writes_derived_keys_only [OF 1, of ext0 "[Inr (page0 [] None)]"
      "QueryBase_all scan0"]
  note U = execution_writes_derived_keys_only [OF 3, of ext0 "[Inr (page0 [] None)]"
      "QueryBase_all query_by_date"]
  from snapshot_table [OF 2, of ext0 heap2]
  have P: "snapshot ext0 scan0 heap2 =
             Inr (next_free heap2,
                  heap2\<lparr>cells := (cells heap2)
                      (params scan0 := derived_params ext0 scan0 users (cells heap2 (params scan0)),
                       next_free heap2 :=
                         derived_params ext0 scan0 users (cells heap2 (params scan0))),
                    next_free := Suc (next_free heap2)\<rparr>)
           \<and> command scan0 = command scan0 \<and> table scan0 = table scan0"
    by simp
  note Q = conjunct2 [OF conjunct2 [OF T], rule_format, OF P,
      where h' = heap2 and d = "[(''Limit'', Num 5)]" and c' = PagedQueryResult_init
        and rs' = "[Inr (page0 [] None)]"]
  have a: "map_of (cells (s_store (QueryBase_single ext0 scan0 heap2 [Inr (page0 [] None)]))
             (params scan0)) ''Limit''
     = map_of (cells heap2 (params scan0)) ''Limit''"
    using conjunct1 [OF conjunct2 [OF T], rule_format, of "''Limit''"] by simp
  have b: "map_of (cells (store (PagedQueryResult_iter ext0 scan0 (QueryBase_all scan0) heap2
                              [Inr (page0 [] None)])) (params scan0)) ''ExclusiveStartKey''
     = map_of (cells heap2 (params scan0)) ''ExclusiveStartKey''"
    using conjunct1 [OF conjunct2 [OF T], rule_format, of "''ExclusiveStartKey''"] by simp
  note W = conjunct1 [OF U, rule_format, OF 4]
  have kc: "key_conditions ext0 (key_fields events_table)
              [hash_value query_by_date, range_value query_by_date]
            = [(''device'', Dct [(''AttributeValueList'', Lst [Dct [(''S'', Str ''d1'')]])])]"
    by (simp add: key_conditions_def events_table_def query_by_date_def ext0_def)
  have w: "map_of (cells (store (PagedQueryResult_iter ext0 query_by_date
                                   (QueryBase_all query_by_date) heap2 [Inr (page0 [] None)]))
                     (params query_by_date)) ''TableName'' = Some (Str ''events'')
         \<and> map_of (cells (store (PagedQueryResult_iter ext0 query_by_date
                                   (QueryBase_all query_by_date) heap2 [Inr (page0 [] None)]))
                     (params query_by_date)) ''IndexName'' = Some (Str ''by_date'')
         \<and> map_of (cells (s_store (QueryBase_single ext0 query_by_date heap2
                                     [Inr (page0 [] None)]))
                     (params query_by_date)) ''KeyConditions''
             = Some (Dct [(''device'',
                           Dct [(''AttributeValueList'', Lst [Dct [(''S'', Str ''d1'')]])])])"
    using W kc
    by (simp add: query_by_date_def ext0_def events_table_def by_date_def)
  from a b Q w show ?thesis by simp
qed

section \<open>Key conditions\<close>

lemma query_users_constructed:
  "Query_init (PyValue (Str ''u1'')) [session0, PyTable users] heap0
     = Inr (query_users\<lparr>range_value := NOT_PROVIDED\<rparr>, heap2)
   \<and> Query_range (query_users\<lparr>range_value := NOT_PROVIDED\<rparr>) (PyValue (Str ''2016''))
     = Inr query_users"
  by (simp add: Query_init_def dict_new_def heap0_def session0_def query_users_def heap0_alloc2
      Query_range_def)

text \<open>
  Claim C8 fails on the code: with a hash value and a range value supplied, on a table
  that declares a hash field only, \<open>KeyConditions\<close> has one entry.
\<close>

theorem key_conditions_counterexample:
  "hash_value query_users = PyValue (Str ''u1'')
   \<and> range_value query_users = PyValue (Str ''2016'')
   \<and> returned_entry ''KeyConditions'' (Query_get_params ext0 query_users heap2)
       = Some (Dct [(''id'', Dct [(''AttributeValueList'', Lst [Dct [(''S'', Str ''u1'')]])])])"
  by (simp add: returned_entry_def Query_get_params_def QueryBase_get_params_def
      key_conditions_def dict_setitem_def query_users_def users_def ext0_def heap2_def Let_def)

text \<open>
  Claim C8 as amended. For a \<open>Query\<close> with a hash value, on a table whose first key
  field is the hash field: \<open>KeyConditions\<close> has exactly the entry of the hash field
  when no range value was supplied or the table declares no range field (\<open>zip\<close> drops
  the range value), and exactly the entries of the hash field and of the range field, in
  this order, when a range value was supplied and the table declares a range field of
  another name. Each entry maps the field's name to an \<open>AttributeValueList\<close> holding
  the one value, passed through the field's \<open>prepare_dynamo\<close>.
\<close>

theorem key_conditions_derived:
  assumes "table q = PyTable t" and "key_fields t = hf # others"
    and "hash_value q \<noteq> NOT_PROVIDED"
  shows "(others = [] \<or> range_value q = NOT_PROVIDED \<longrightarrow>
            returned_entry ''KeyConditions'' (Query_get_params ext q h)
              = Some (Dct [(field_name hf,
                            Dct [(''AttributeValueList'',
                                  Lst [prepare_dynamo ext hf (hash_value q)])])]))
       \<and> (\<forall>rf others'. others = rf # others' \<and> range_value q \<noteq> NOT_PROVIDED
                        \<and> field_name rf \<noteq> field_name hf \<longrightarrow>
            returned_entry ''KeyConditions'' (Query_get_params ext q h)
              = Some (Dct [(field_name hf,
                            Dct [(''AttributeValueList'',
                                  Lst [prepare_dynamo ext hf (hash_value q)])]),
                           (field_name rf,
                            Dct [(''AttributeValueList'',
                                  Lst [prepare_dynamo ext rf (range_value q)])])]))"
proof -
  have kc: "returned_entry ''KeyConditions'' (Query_get_params ext q h)
              = Some (Dct (key_conditions ext (hf # others) [hash_value q, range_value q]))"
    using assms(1,2)
    by (simp add: returned_entry_def Query_get_params_def QueryBase_get_params_def
        dict_setitem_def Let_def update_conv' split: option.splits)
  show ?thesis
    unfolding kc using assms(3)
    by (cases others) (auto simp: key_conditions_def)
qed

theorem key_conditions_derived_witness:
  "returned_entry ''KeyConditions''
       (Query_get_params ext0 (query0\<lparr>range_value := PyValue (Str ''2016'')\<rparr>) heap2)
     = Some (Dct [(''device'', Dct [(''AttributeValueList'', Lst [Dct [(''S'', Str ''d1'')]])]),
                  (''at'', Dct [(''AttributeValueList'', Lst [Dct [(''S'', Str ''2016'')]])])])
   \<and> returned_entry ''KeyConditions'' (Query_get_params ext0 query0 heap2)
     = Some (Dct [(''device'', Dct [(''AttributeValueList'', Lst [Dct [(''S'', Str ''d1'')]])])])"
proof -
  have 1: "table (query0\<lparr>range_value := PyValue (Str ''2016'')\<rparr>) = PyTable events_table"
    and 4: "table query0 = PyTable events_table"
    by (simp_all add: query0_def)
  have 2: "key_fields events_table = Field ''device'' # [Field ''at'']"
    by (simp add: events_table_def)
  have 3: "hash_value (query0\<lparr>range_value := PyValue (Str ''2016'')\<rparr>) \<noteq> NOT_PROVIDED"
    and 5: "hash_value query0 \<noteq> NOT_PROVIDED"
    by (simp_all add: query0_def)
  from key_conditions_derived [OF 1 2 3, of ext0 heap2]
    key_conditions_derived [OF 4 2 5, of ext0 heap2]
  show ?thesis by (simp add: query0_def ext0_def)
qed

end
